theory Spec2Isabelle
  imports Main "HOL-Library.AList"
begin

section \<open>Text primitives\<close>

text \<open>
  Python strings are modelled as \<open>string\<close> over ASCII characters: \<open>len\<close> is
  \<open>length\<close>, the classes \<open>\w\<close> and \<open>\d\<close> are the ASCII letters, digits and
  underscore, and \<open>re.I\<close> folds the ASCII letters only.
\<close>

definition upper_letters :: string where
  "upper_letters = ''ABCDEFGHIJKLMNOPQRSTUVWXYZ''"

definition lower_letters :: string where
  "lower_letters = ''abcdefghijklmnopqrstuvwxyz''"

definition digit_chars :: string where
  "digit_chars = ''0123456789''"

definition lower_char :: "char \<Rightarrow> char" where
  "lower_char c = (case map_of (zip upper_letters lower_letters) c of
                     None \<Rightarrow> c | Some l \<Rightarrow> l)"

definition is_digit :: "char \<Rightarrow> bool" where
  "is_digit c = (c \<in> set digit_chars)"

text \<open>\<open>\w\<close>: a letter, a digit or the underscore.\<close>

definition is_word :: "char \<Rightarrow> bool" where
  "is_word c = (c \<in> set (upper_letters @ lower_letters @ digit_chars @ ''_''))"

text \<open>
  The characters \<open>str.strip()\<close> removes: tab, line feed, vertical tab, form feed,
  carriage return, the four separators \<open>0x1C\<close> to \<open>0x1F\<close>, and the space.
\<close>

definition is_space :: "char \<Rightarrow> bool" where
  "is_space c = (c \<in> set [CHR 0x09, CHR 0x0A, CHR 0x0B, CHR 0x0C, CHR 0x0D,
                            CHR 0x1C, CHR 0x1D, CHR 0x1E, CHR 0x1F, CHR 0x20])"

definition strip :: "string \<Rightarrow> string" where
  "strip s = rev (dropWhile is_space (rev (dropWhile is_space s)))"

section \<open>The regular expressions of the extractor\<close>

text \<open>
  \<open>match_lit p s\<close>: the literal \<open>p\<close> matches at the start of \<open>s\<close>, ignoring case.
  On success the match is \<open>take (length p) s\<close>.
\<close>

fun match_lit :: "string \<Rightarrow> string \<Rightarrow> bool" where
  "match_lit [] s = True"
| "match_lit (p # ps) [] = False"
| "match_lit (p # ps) (c # cs) = (lower_char c = lower_char p \<and> match_lit ps cs)"

text \<open>
  \<open>re.search\<close> of an alternation of literals, as a truth value: some literal
  matches at some position of the text.
\<close>

fun search_lits :: "string list \<Rightarrow> string \<Rightarrow> bool" where
  "search_lits lits [] = list_ex (\<lambda>l. match_lit l []) lits"
| "search_lits lits (c # cs) =
     (list_ex (\<lambda>l. match_lit l (c # cs)) lits \<or> search_lits lits cs)"

text \<open>\<open>re.compile(r'winner|award|prize', re.I)\<close>\<close>

definition winner_re :: "string \<Rightarrow> bool" where
  "winner_re = search_lits [''winner'', ''award'', ''prize'']"

text \<open>\<open>re.search(r'winner|award|prize|about', name, re.I)\<close>\<close>

definition not_a_name_re :: "string \<Rightarrow> bool" where
  "not_a_name_re = search_lits [''winner'', ''award'', ''prize'', ''about'']"

text \<open>\<open>re.search(r'university|college|school', text, re.I)\<close>\<close>

definition school_re :: "string \<Rightarrow> bool" where
  "school_re = search_lits [''university'', ''college'', ''school'']"

text \<open>
  \<open>(freshman|sophomore|junior|senior|\b\d{4}\b)\<close> tried at one position; \<open>prev\<close> is
  the character before the position (\<open>None\<close> at the start of the text). The
  alternatives are tried in the order written. A \<open>\b\<close> next to a digit holds
  when the character on the other side is not a word character, or is missing.
\<close>

definition four_digits_at :: "char option \<Rightarrow> string \<Rightarrow> bool" where
  "four_digits_at prev s =
     ((case prev of None \<Rightarrow> True | Some p \<Rightarrow> \<not> is_word p)
      \<and> length s \<ge> 4 \<and> list_all is_digit (take 4 s)
      \<and> (case drop 4 s of [] \<Rightarrow> True | n # _ \<Rightarrow> \<not> is_word n))"

definition year_at :: "char option \<Rightarrow> string \<Rightarrow> string option" where
  "year_at prev s =
     (if match_lit ''freshman'' s then Some (take 8 s)
      else if match_lit ''sophomore'' s then Some (take 9 s)
      else if match_lit ''junior'' s then Some (take 6 s)
      else if match_lit ''senior'' s then Some (take 6 s)
      else if four_digits_at prev s then Some (take 4 s)
      else None)"

text \<open>The leftmost match of the year expression: \<open>year_match.group(0)\<close>.\<close>

fun year_search_from :: "char option \<Rightarrow> string \<Rightarrow> string option" where
  "year_search_from prev [] = year_at prev []"
| "year_search_from prev (c # cs) =
     (case year_at prev (c # cs) of
        Some m \<Rightarrow> Some m
      | None \<Rightarrow> year_search_from (Some c) cs)"

definition year_re :: "string \<Rightarrow> string option" where
  "year_re text = year_search_from None text"

text \<open>
  \<open>major(ing)? in (\w+)|(\w+) major\<close> tried at one position. The result is
  \<open>(group(2), group(3))\<close>; a group that did not take part is \<open>None\<close>.

  First alternative: \<open>major\<close>, then \<open>ing\<close> if it is there (and, by backtracking,
  without it), then \<open> in \<close>, then the longest run of word characters, at least one.
  Second alternative: a run of word characters followed by \<open> major\<close>. Only the
  longest run can be followed by a space, so the shorter runs that backtracking
  would try all fail.
\<close>

definition word_run :: "string \<Rightarrow> string" where
  "word_run s = takeWhile is_word s"

definition in_word_at :: "string \<Rightarrow> string option" where
  "in_word_at s =
     (if match_lit '' in '' s \<and> word_run (drop 4 s) \<noteq> []
      then Some (word_run (drop 4 s)) else None)"

definition major_alt1_at :: "string \<Rightarrow> string option" where
  "major_alt1_at s =
     (if match_lit ''major'' s then
        (case (if match_lit ''ing'' (drop 5 s) then in_word_at (drop 8 s) else None) of
           Some w \<Rightarrow> Some w
         | None \<Rightarrow> in_word_at (drop 5 s))
      else None)"

definition major_alt2_at :: "string \<Rightarrow> string option" where
  "major_alt2_at s =
     (if word_run s \<noteq> [] \<and> match_lit '' major'' (drop (length (word_run s)) s)
      then Some (word_run s) else None)"

definition major_at :: "string \<Rightarrow> (string option \<times> string option) option" where
  "major_at s =
     (case major_alt1_at s of
        Some w \<Rightarrow> Some (Some w, None)
      | None \<Rightarrow> (case major_alt2_at s of
                   Some w \<Rightarrow> Some (None, Some w)
                 | None \<Rightarrow> None))"

text \<open>The leftmost match of the major expression, as its groups 2 and 3.\<close>

fun major_re :: "string \<Rightarrow> (string option \<times> string option) option" where
  "major_re [] = major_at []"
| "major_re (c # cs) =
     (case major_at (c # cs) of
        Some g \<Rightarrow> Some g
      | None \<Rightarrow> major_re cs)"

text \<open>
  \<open>major_match.group(2) if major_match.group(2) else major_match.group(3)\<close>:
  a group that is \<open>None\<close> or empty is falsy.
\<close>

definition major_group :: "string option \<times> string option \<Rightarrow> string" where
  "major_group g =
     (case fst g of
        Some w \<Rightarrow> (if w \<noteq> [] then w else (case snd g of Some v \<Rightarrow> v | None \<Rightarrow> []))
      | None \<Rightarrow> (case snd g of Some v \<Rightarrow> v | None \<Rightarrow> []))"

section \<open>The parsed document\<close>

text \<open>
  The tree that \<open>BeautifulSoup(html_content, 'html.parser')\<close> builds: a \<open>Tag\<close> has a
  name (in lower case), the values of its \<open>class\<close> attribute (none when the
  attribute is missing) and its children in document order; a
  \<open>NavigableString\<close> is a piece of text. Comments, scripts and other special
  strings are not modelled. A document is the list of its top-level nodes.
\<close>

datatype node = Tag string "string list" "node list" | NavigableString string

text \<open>\<open>elem.get_text()\<close>: the strings below the element, concatenated.\<close>

fun get_text :: "node \<Rightarrow> string" where
  "get_text (NavigableString s) = s"
| "get_text (Tag n cls kids) = concat (map get_text kids)"

text \<open>
  \<open>tag.string\<close>: the single string below a tag whose only child is a string, or
  whose only child is a tag that has one; \<open>None\<close> otherwise.
\<close>

fun tag_string :: "node \<Rightarrow> string option" where
  "tag_string (NavigableString s) = Some s"
| "tag_string (Tag n cls [k]) = tag_string k"
| "tag_string (Tag n cls kids) = None"

text \<open>
  The nodes below a list of siblings, in document order. \<open>with_next_siblings\<close>
  pairs each node with its \<open>next_siblings\<close>; \<open>with_parent\<close> pairs each node with
  its \<open>find_parent(['div', 'section', 'article'])\<close>, where \<open>p\<close> is that parent for
  the siblings themselves.
\<close>

definition containers :: "string list" where
  "containers = [''div'', ''section'', ''article'']"

fun with_next_siblings :: "node list \<Rightarrow> (node \<times> node list) list" where
  "with_next_siblings [] = []"
| "with_next_siblings (NavigableString s # ks) =
     (NavigableString s, ks) # with_next_siblings ks"
| "with_next_siblings (Tag n cls kids # ks) =
     (Tag n cls kids, ks) # with_next_siblings kids @ with_next_siblings ks"

fun with_parent :: "node option \<Rightarrow> node list \<Rightarrow> (node \<times> node option) list" where
  "with_parent p [] = []"
| "with_parent p (NavigableString s # ks) = (NavigableString s, p) # with_parent p ks"
| "with_parent p (Tag n cls kids # ks) =
     (Tag n cls kids, p)
       # with_parent (if n \<in> set containers then Some (Tag n cls kids) else p) kids
       @ with_parent p ks"

definition descendants :: "node list \<Rightarrow> node list" where
  "descendants ks = map fst (with_next_siblings ks)"

fun contents :: "node \<Rightarrow> node list" where
  "contents (Tag n cls kids) = kids"
| "contents (NavigableString s) = []"

fun has_name :: "string list \<Rightarrow> node \<Rightarrow> bool" where
  "has_name names (Tag n cls kids) = (n \<in> set names)"
| "has_name names (NavigableString s) = False"

text \<open>
  \<open>class_=re.compile(...)\<close>: the expression is searched in each value of the
  \<open>class\<close> attribute and then in the values joined by spaces; a tag without
  values does not match.
\<close>

fun join_spaces :: "string list \<Rightarrow> string" where
  "join_spaces [] = []"
| "join_spaces [c] = c"
| "join_spaces (c # cs) = c @ '' '' @ join_spaces cs"

fun class_matches :: "(string \<Rightarrow> bool) \<Rightarrow> node \<Rightarrow> bool" where
  "class_matches re (Tag n cls kids) =
     (cls \<noteq> [] \<and> (list_ex re cls \<or> re (join_spaces cls)))"
| "class_matches re (NavigableString s) = False"

text \<open>\<open>string=re.compile(...)\<close> on a tag: the expression is searched in \<open>tag.string\<close>.\<close>

definition string_matches :: "(string \<Rightarrow> bool) \<Rightarrow> node \<Rightarrow> bool" where
  "string_matches re e = (case tag_string e of None \<Rightarrow> False | Some s \<Rightarrow> re s)"

section \<open>The extractor\<close>

type_synonym pydict = "(string \<times> string) list"

text \<open>
  Lines 74 to 89: one round of the loop over \<open>name_elem.next_siblings\<close>, on the
  variables \<open>(school, year, major)\<close>.
\<close>

definition sibling_text :: "node \<Rightarrow> string" where
  "sibling_text elem = strip (get_text elem)"

definition scan_sibling :: "string \<times> string \<times> string \<Rightarrow> node \<Rightarrow> string \<times> string \<times> string" where
  "scan_sibling v elem =
     (case v of (school, year, major) \<Rightarrow>
        let text = sibling_text elem;
            school' = (if school_re text \<and> school = [] then text else school);
            year' = (case year_re text of
                       Some m \<Rightarrow> (if year = [] then m else year)
                     | None \<Rightarrow> year);
            major' = (case major_re text of
                        Some g \<Rightarrow> (if major = [] then major_group g else major)
                      | None \<Rightarrow> major)
        in (school', year', major'))"

definition scan_siblings :: "node list \<Rightarrow> string \<times> string \<times> string" where
  "scan_siblings sibs = foldl scan_sibling ([], [], []) sibs"

text \<open>Lines 61 to 101: the prospects one candidate name element adds (none or one).\<close>

definition name_prospects :: "string \<Rightarrow> node \<times> node list \<Rightarrow> pydict list" where
  "name_prospects competition_name ns =
     (case ns of (name_elem, next_siblings) \<Rightarrow>
        let name = strip (get_text name_elem) in
        if length name < 3 \<or> not_a_name_re name then []
        else (case scan_siblings next_siblings of (school, year, major) \<Rightarrow>
                if name \<noteq> [] then
                  [[(''Student/Team Name'', name),
                    (''School'', school),
                    (''Year'', year),
                    (''Major'', major),
                    (''Competition'', competition_name),
                    (''Venture Name'', []),
                    (''Email'', [])]]
                else []))"

text \<open>Line 59: \<open>section.find_all(['h3', 'h4', 'strong', 'b'], limit=5)\<close>.\<close>

definition find_names :: "node \<Rightarrow> (node \<times> node list) list" where
  "find_names section =
     take 5 (filter (\<lambda>ns. has_name [''h3'', ''h4'', ''strong'', ''b''] (fst ns))
               (with_next_siblings (contents section)))"

definition section_prospects :: "string \<Rightarrow> node \<Rightarrow> pydict list" where
  "section_prospects competition_name section =
     concat (map (name_prospects competition_name) (find_names section))"

text \<open>Lines 47 to 55: the winner sections of a document.\<close>

definition find_winner_sections :: "node list \<Rightarrow> node list" where
  "find_winner_sections soup =
     (let winner_sections =
            filter (\<lambda>e. has_name containers e \<and> class_matches winner_re e) (descendants soup)
      in if winner_sections = [] then
           (let headings =
                  filter (\<lambda>hp. has_name [''h1'', ''h2'', ''h3'', ''h4''] (fst hp)
                                \<and> string_matches winner_re (fst hp))
                    (with_parent None soup)
            in concat (map (\<lambda>hp. case snd hp of None \<Rightarrow> [] | Some section \<Rightarrow> [section])
                         headings))
         else winner_sections)"

definition extract_from_soup :: "node list \<Rightarrow> string \<Rightarrow> pydict list" where
  "extract_from_soup soup competition_name =
     concat (map (section_prospects competition_name) (find_winner_sections soup))"

text \<open>
  \<open>extract_basic_info\<close>. The HTML parser is a library and a parameter of the
  model; \<open>html_content\<close> is \<open>None\<close> or a string, both falsy when empty.
\<close>

definition extract_basic_info ::
    "(string \<Rightarrow> node list) \<Rightarrow> string option \<Rightarrow> string \<Rightarrow> pydict list" where
  "extract_basic_info parser html_content competition_name =
     (case html_content of
        None \<Rightarrow> []
      | Some html \<Rightarrow>
          if html = [] then []
          else extract_from_soup (parser html) competition_name)"

section \<open>Files, standard output and the network\<close>

text \<open>
  A CSV file is kept as the list of its rows, each row the list of its fields:
  what \<open>csv.writer\<close> writes row by row and \<open>csv.reader\<close> reads back. The file
  system maps a path to the rows of the file there; \<open>os.path.isfile\<close> holds of
  the paths that are mapped. Standard output is the list of the lines printed.
\<close>

type_synonym csv_file = "string list list"

record world =
  files :: "string \<Rightarrow> csv_file option"
  stdout :: "string list"

definition print :: "string \<Rightarrow> world \<Rightarrow> world" where
  "print line w = w\<lparr>stdout := stdout w @ [line]\<rparr>"

definition isfile :: "world \<Rightarrow> string \<Rightarrow> bool" where
  "isfile w path = (files w path \<noteq> None)"

datatype error = KeyError string | ValueError

text \<open>\<open>str(n)\<close> of a natural number, as in an f-string.\<close>

function str_nat :: "nat \<Rightarrow> string" where
  "str_nat n =
     (if n < 10 then [digit_chars ! n]
      else str_nat (n div 10) @ [digit_chars ! (n mod 10)])"
  by pat_completeness auto
termination
  by (relation "measure id") auto

declare str_nat.simps [simp del]

text \<open>
  \<open>datetime.datetime.now().strftime('%Y-%m-%d')\<close>: the fields of the date in
  decimal, padded with zeros to four, two and two digits.
\<close>

record date =
  yyyy :: nat
  mm :: nat
  dd :: nat

definition zfill :: "nat \<Rightarrow> string \<Rightarrow> string" where
  "zfill width s = replicate (width - length s) CHR ''0'' @ s"

definition strftime_ymd :: "date \<Rightarrow> string" where
  "strftime_ymd d =
     zfill 4 (str_nat (yyyy d)) @ ''-'' @ zfill 2 (str_nat (mm d)) @ ''-''
       @ zfill 2 (str_nat (dd d))"

text \<open>
  What \<open>requests.get\<close> does for a URL: it raises an exception (a timeout or any
  other failure; the string is the exception's message) or returns a response
  with a status code and a body. The network, the date of the run and the HTML
  parser are the environment of a run.
\<close>

datatype http_result = Raised string | Response nat string

record env =
  net :: "string \<Rightarrow> http_result"
  today :: date
  parser :: "string \<Rightarrow> node list"

section \<open>The fetcher\<close>

definition check_competition_website :: "env \<Rightarrow> string \<Rightarrow> world \<Rightarrow> string option \<times> world" where
  "check_competition_website e url w =
     (case net e url of
        Response status_code text \<Rightarrow>
          if status_code = 200 then (Some text, w)
          else (None, print (''Failed to access '' @ url @ '', status code: ''
                               @ str_nat status_code) w)
      | Raised msg \<Rightarrow> (None, print (''Error accessing '' @ url @ '': '' @ msg) w))"

section \<open>The sink\<close>

text \<open>
  \<open>csv.DictWriter\<close>: a dictionary with a key that is not a field name raises
  \<open>ValueError\<close>; a field name that is not a key is written as the empty string.
\<close>

definition dict_to_list :: "string list \<Rightarrow> pydict \<Rightarrow> error + string list" where
  "dict_to_list fieldnames rowdict =
     (if list_ex (\<lambda>k. k \<notin> set fieldnames) (map fst rowdict) then Inl ValueError
      else Inr (map (\<lambda>key. case map_of rowdict key of None \<Rightarrow> [] | Some v \<Rightarrow> v) fieldnames))"

text \<open>Writing the rows of a list of dictionaries, one after the other, to an open file.\<close>

fun writerows :: "string list \<Rightarrow> pydict list \<Rightarrow> csv_file \<Rightarrow> error + csv_file" where
  "writerows fieldnames [] file = Inr file"
| "writerows fieldnames (rowdict # rowdicts) file =
     (case dict_to_list fieldnames rowdict of
        Inl err \<Rightarrow> Inl err
      | Inr row \<Rightarrow> writerows fieldnames rowdicts (file @ [row]))"

definition prospect_fieldnames :: "string list" where
  "prospect_fieldnames =
     [''Student/Team Name'', ''School'', ''Year'', ''Major'', ''Competition'',
      ''Venture Name'', ''Email'']"

text \<open>
  \<open>save_prospects_to_csv\<close>. Opening in mode \<open>'a'\<close> keeps the rows of a file that
  exists and starts from no rows otherwise. The model keeps no world after an error.
\<close>

definition save_prospects_to_csv :: "pydict list \<Rightarrow> string \<Rightarrow> world \<Rightarrow> error + world" where
  "save_prospects_to_csv prospects output_file w =
     (if prospects = [] then Inr (print ''No prospects found to save.'' w)
      else
        let file_exists = isfile w output_file;
            opened = (case files w output_file of None \<Rightarrow> [] | Some rows \<Rightarrow> rows);
            headed = (if \<not> file_exists then opened @ [prospect_fieldnames] else opened)
        in case writerows prospect_fieldnames prospects headed of
             Inl err \<Rightarrow> Inl err
           | Inr written \<Rightarrow>
               Inr (print (''Saved '' @ str_nat (length prospects) @ '' prospects to ''
                             @ output_file)
                      (w\<lparr>files := (files w)(output_file \<mapsto> written)\<rparr>)))"

section \<open>The main loop\<close>

definition competition_fieldnames :: "string list" where
  "competition_fieldnames = [''competition_name'', ''url'', ''last_checked'']"

text \<open>
  Lines 140 to 152, one round of the loop over the competitions that
  \<open>read_competition_csv\<close> returned, each a dictionary from column names to
  strings. The round returns the competition, updated in place or not.
\<close>

definition process_competition :: "env \<Rightarrow> pydict \<Rightarrow> world \<Rightarrow> error + pydict \<times> world" where
  "process_competition e competition w =
     (case map_of competition ''competition_name'' of
        None \<Rightarrow> Inl (KeyError ''competition_name'')
      | Some competition_name \<Rightarrow>
          let w1 = print (''Checking '' @ competition_name @ ''...'') w in
          (case map_of competition ''url'' of
             None \<Rightarrow> Inl (KeyError ''url'')
           | Some url \<Rightarrow>
               (case check_competition_website e url w1 of (html_content, w2) \<Rightarrow>
                  if html_content \<noteq> None \<and> html_content \<noteq> Some [] then
                    let prospects = extract_basic_info (parser e) html_content competition_name
                    in (case (if prospects \<noteq> [] then
                                (case save_prospects_to_csv prospects ''tbmc_prospects.csv'' w2 of
                                   Inl err \<Rightarrow> Inl err
                                 | Inr w3 \<Rightarrow>
                                     Inr (print (''Found '' @ str_nat (length prospects)
                                                   @ '' potential prospects from ''
                                                   @ competition_name) w3))
                              else Inr (print (''No prospects found from '' @ competition_name) w2)) of
                          Inl err \<Rightarrow> Inl err
                        | Inr w4 \<Rightarrow>
                            Inr (AList.update ''last_checked'' (strftime_ymd (today e)) competition,
                                 w4))
                  else Inr (competition, w2))))"

fun main_loop :: "env \<Rightarrow> pydict list \<Rightarrow> world \<Rightarrow> error + pydict list \<times> world" where
  "main_loop e [] w = Inr ([], w)"
| "main_loop e (competition # rest) w =
     (case process_competition e competition w of
        Inl err \<Rightarrow> Inl err
      | Inr (competition', w') \<Rightarrow>
          (case main_loop e rest w' of
             Inl err \<Rightarrow> Inl err
           | Inr (rest', w'') \<Rightarrow> Inr (competition' # rest', w'')))"

text \<open>
  Lines 155 to 158: \<open>competitions.csv\<close> is opened in mode \<open>'w'\<close>, which empties it,
  and the header and the rows of the competitions are written.
\<close>

definition write_competitions :: "pydict list \<Rightarrow> world \<Rightarrow> error + world" where
  "write_competitions competitions w =
     (case writerows competition_fieldnames competitions [competition_fieldnames] of
        Inl err \<Rightarrow> Inl err
      | Inr written \<Rightarrow> Inr (w\<lparr>files := (files w)(''competitions.csv'' \<mapsto> written)\<rparr>))"

text \<open>\<open>main\<close> from line 139 on, with the competitions loaded.\<close>

definition main_loaded :: "env \<Rightarrow> pydict list \<Rightarrow> world \<Rightarrow> error + world" where
  "main_loaded e competitions w =
     (case main_loop e competitions w of
        Inl err \<Rightarrow> Inl err
      | Inr (competitions', w') \<Rightarrow> write_competitions competitions' w')"

section \<open>Notions of the specification\<close>

text \<open>
  The row a dictionary is written as, the value of one of its fields, and the
  dictionaries \<open>csv.DictWriter\<close> accepts: those whose keys are all field names.
\<close>

definition row_of :: "string list \<Rightarrow> pydict \<Rightarrow> string list" where
  "row_of fieldnames rowdict =
     map (\<lambda>key. case map_of rowdict key of None \<Rightarrow> [] | Some v \<Rightarrow> v) fieldnames"

definition field :: "string \<Rightarrow> pydict \<Rightarrow> string" where
  "field key rowdict = (case map_of rowdict key of None \<Rightarrow> [] | Some v \<Rightarrow> v)"

definition keys_within :: "string list \<Rightarrow> pydict \<Rightarrow> bool" where
  "keys_within fieldnames rowdict = list_all (\<lambda>k. k \<in> set fieldnames) (map fst rowdict)"

text \<open>A failed fetch: an exception, or a response whose status is not 200.\<close>

definition fetch_fails :: "env \<Rightarrow> string \<Rightarrow> bool" where
  "fetch_fails e url =
     (case net e url of Raised msg \<Rightarrow> True | Response status_code text \<Rightarrow> status_code \<noteq> 200)"

text \<open>
  A fetch that gives the main loop something to extract from: status 200 and a
  body that is not empty.
\<close>

definition content_fetched :: "env \<Rightarrow> string \<Rightarrow> bool" where
  "content_fetched e url =
     (case net e url of
        Raised msg \<Rightarrow> False
      | Response status_code text \<Rightarrow> status_code = 200 \<and> text \<noteq> [])"

text \<open>
  First match wins, in the words of the specification: each field is taken from
  the first sibling, in document order, whose text matches the field's
  expression, and is empty when there is none. The text of a sibling is its text
  content without the white space around it, as line 75 computes it.
\<close>

definition first_school :: "node list \<Rightarrow> string" where
  "first_school sibs =
     (case find (\<lambda>elem. school_re (sibling_text elem)) sibs of
        None \<Rightarrow> []
      | Some elem \<Rightarrow> sibling_text elem)"

definition first_year :: "node list \<Rightarrow> string" where
  "first_year sibs =
     (case find (\<lambda>elem. year_re (sibling_text elem) \<noteq> None) sibs of
        None \<Rightarrow> []
      | Some elem \<Rightarrow> (case year_re (sibling_text elem) of Some m \<Rightarrow> m | None \<Rightarrow> []))"

definition first_major :: "node list \<Rightarrow> string" where
  "first_major sibs =
     (case find (\<lambda>elem. major_re (sibling_text elem) \<noteq> None) sibs of
        None \<Rightarrow> []
      | Some elem \<Rightarrow> (case major_re (sibling_text elem) of Some g \<Rightarrow> major_group g | None \<Rightarrow> []))"




text \<open>
  The competitions table. A loaded row has a name and a URL and no column beyond
  the three of the table. After a run a row is checked: it carries the date of the
  run when content was fetched for it and is as it was otherwise; the row written
  for it has its name, its URL and that value of \<open>last_checked\<close>.
\<close>

definition loaded_row :: "pydict \<Rightarrow> bool" where
  "loaded_row competition =
     (map_of competition ''competition_name'' \<noteq> None
      \<and> map_of competition ''url'' \<noteq> None
      \<and> keys_within competition_fieldnames competition)"

definition checked :: "env \<Rightarrow> pydict \<Rightarrow> pydict" where
  "checked e competition =
     (if content_fetched e (field ''url'' competition)
      then AList.update ''last_checked'' (strftime_ymd (today e)) competition
      else competition)"

definition rewritten_row :: "env \<Rightarrow> pydict \<Rightarrow> string list" where
  "rewritten_row e competition =
     [field ''competition_name'' competition,
      field ''url'' competition,
      if content_fetched e (field ''url'' competition) then strftime_ymd (today e)
      else field ''last_checked'' competition]"

definition competitions_file :: "error + world \<Rightarrow> csv_file option" where
  "competitions_file result =
     (case result of Inl err \<Rightarrow> None | Inr w \<Rightarrow> files w ''competitions.csv'')"

text \<open>
  A date in the form \<open>YYYY-MM-DD\<close>: four digits, a hyphen, two digits, a hyphen,
  two digits. A date of four-digit year, as \<open>datetime.now()\<close> returns.
\<close>

definition ymd_form :: "string \<Rightarrow> bool" where
  "ymd_form s =
     (length s = 10
      \<and> list_all is_digit (take 4 s) \<and> s ! 4 = CHR ''-''
      \<and> list_all is_digit (take 2 (drop 5 s)) \<and> s ! 7 = CHR ''-''
      \<and> list_all is_digit (drop 8 s))"

definition valid_date :: "date \<Rightarrow> bool" where
  "valid_date d =
     (1000 \<le> yyyy d \<and> yyyy d \<le> 9999 \<and> 1 \<le> mm d \<and> mm d \<le> 12 \<and> 1 \<le> dd d \<and> dd d \<le> 31)"

text \<open>
  An environment for the examples: one site answers with a page, every other
  URL with status 404, and the parser returns a page with one winner region.
\<close>

definition example_site :: "string \<Rightarrow> http_result" where
  "example_site url =
     (if url = ''https://rbpc.rice.edu/winners'' then Response 200 ''<html>''
      else Response 404 [])"

definition example_page :: "string \<Rightarrow> node list" where
  "example_page html =
     [Tag ''div'' [''winners'']
        [Tag ''h3'' [] [NavigableString ''Jane Doe''],
         Tag ''p'' [] [NavigableString ''Rice University'']]]"

section \<open>Auxiliary lemmas\<close>

subsection \<open>Writing rows\<close>

lemma dict_to_list_row_of:
  "keys_within fieldnames rowdict \<Longrightarrow> dict_to_list fieldnames rowdict = Inr (row_of fieldnames rowdict)"
  by (simp add: dict_to_list_def keys_within_def row_of_def list_ex_iff list_all_iff)

lemma writerows_appends:
  "list_all (keys_within fieldnames) rowdicts \<Longrightarrow>
   writerows fieldnames rowdicts out = Inr (out @ map (row_of fieldnames) rowdicts)"
  by (induction rowdicts arbitrary: out) (simp_all add: dict_to_list_row_of)

lemma files_print [simp]: "files (print line w) = files w"
  by (simp add: print_def)

lemma stdout_print [simp]: "stdout (print line w) = stdout w @ [line]"
  by (simp add: print_def)

lemma save_prospects_files:
  assumes "prospects \<noteq> []" and "list_all (keys_within prospect_fieldnames) prospects"
  shows "\<exists>w'. save_prospects_to_csv prospects output_file w = Inr w'
           \<and> files w' = (files w)(output_file \<mapsto>
               (case files w output_file of None \<Rightarrow> [prospect_fieldnames] | Some rows \<Rightarrow> rows)
                 @ map (row_of prospect_fieldnames) prospects)"
  using assms
  by (simp add: save_prospects_to_csv_def isfile_def writerows_appends Let_def split: option.splits)

subsection \<open>Matches are not empty\<close>

lemma match_lit_length: "match_lit p s \<Longrightarrow> length p \<le> length s"
  by (induction p s rule: match_lit.induct) auto

lemma search_lits_nonempty:
  "search_lits lits s \<Longrightarrow> \<forall>l \<in> set lits. l \<noteq> [] \<Longrightarrow> s \<noteq> []"
  by (cases s) (auto simp: list_ex_iff dest: match_lit_length)

lemma school_re_nonempty: "school_re s \<Longrightarrow> s \<noteq> []"
  unfolding school_re_def by (erule search_lits_nonempty) simp

lemma not_a_name_re_length: "not_a_name_re name \<Longrightarrow> 5 \<le> length name"
proof (induction name)
  case Nil
  then show ?case by (simp add: not_a_name_re_def)
next
  case (Cons c cs)
  then show ?case
    by (auto simp: not_a_name_re_def dest: match_lit_length)
qed

lemma year_at_nonempty: "year_at prev s = Some m \<Longrightarrow> m \<noteq> []"
  by (auto simp: year_at_def four_digits_at_def split: if_splits dest: match_lit_length)

lemma year_search_from_nonempty: "year_search_from prev s = Some m \<Longrightarrow> m \<noteq> []"
  by (induction prev s rule: year_search_from.induct)
     (auto split: option.splits dest: year_at_nonempty)

lemma year_re_nonempty: "year_re s = Some m \<Longrightarrow> m \<noteq> []"
  by (auto simp: year_re_def dest: year_search_from_nonempty)

lemma major_at_nonempty: "major_at s = Some g \<Longrightarrow> major_group g \<noteq> []"
  by (auto simp: major_at_def major_alt1_at_def major_alt2_at_def in_word_at_def major_group_def
           split: option.splits if_splits)

lemma major_re_nonempty: "major_re s = Some g \<Longrightarrow> major_group g \<noteq> []"
  by (induction s rule: major_re.induct) (auto split: option.splits dest: major_at_nonempty)

subsection \<open>The scan of the siblings\<close>

lemma scan_sibling_fields:
  "scan_sibling (school, year, major) elem =
     (if school \<noteq> [] then school
      else if school_re (sibling_text elem) then sibling_text elem else [],
      if year \<noteq> [] then year
      else (case year_re (sibling_text elem) of Some m \<Rightarrow> m | None \<Rightarrow> []),
      if major \<noteq> [] then major
      else (case major_re (sibling_text elem) of Some g \<Rightarrow> major_group g | None \<Rightarrow> []))"
  by (simp add: scan_sibling_def Let_def split: option.splits)

lemma first_school_Cons:
  "first_school (elem # sibs) =
     (if school_re (sibling_text elem) then sibling_text elem else first_school sibs)"
  by (simp add: first_school_def)

lemma first_year_Cons:
  "first_year (elem # sibs) =
     (case year_re (sibling_text elem) of Some m \<Rightarrow> m | None \<Rightarrow> first_year sibs)"
  by (simp add: first_year_def split: option.splits)

lemma first_major_Cons:
  "first_major (elem # sibs) =
     (case major_re (sibling_text elem) of Some g \<Rightarrow> major_group g | None \<Rightarrow> first_major sibs)"
  by (simp add: first_major_def split: option.splits)

lemma scan_from:
  "foldl scan_sibling (school, year, major) sibs =
     (if school \<noteq> [] then school else first_school sibs,
      if year \<noteq> [] then year else first_year sibs,
      if major \<noteq> [] then major else first_major sibs)"
proof (induction sibs arbitrary: school year major)
  case Nil
  show ?case by (simp add: first_school_def first_year_def first_major_def)
next
  case (Cons elem sibs)
  define s' where "s' = (if school \<noteq> [] then school
      else if school_re (sibling_text elem) then sibling_text elem else [])"
  define y' where "y' = (if year \<noteq> [] then year
      else (case year_re (sibling_text elem) of Some m \<Rightarrow> m | None \<Rightarrow> []))"
  define m' where "m' = (if major \<noteq> [] then major
      else (case major_re (sibling_text elem) of Some g \<Rightarrow> major_group g | None \<Rightarrow> []))"
  have step: "scan_sibling (school, year, major) elem = (s', y', m')"
    unfolding s'_def y'_def m'_def by (rule scan_sibling_fields)
  have s: "(if s' \<noteq> [] then s' else first_school sibs) =
           (if school \<noteq> [] then school else first_school (elem # sibs))"
    unfolding s'_def first_school_Cons by (auto dest: school_re_nonempty)
  have y: "(if y' \<noteq> [] then y' else first_year sibs) =
           (if year \<noteq> [] then year else first_year (elem # sibs))"
    unfolding y'_def first_year_Cons by (cases "year_re (sibling_text elem)") (auto dest: year_re_nonempty)
  have m: "(if m' \<noteq> [] then m' else first_major sibs) =
           (if major \<noteq> [] then major else first_major (elem # sibs))"
    unfolding m'_def first_major_Cons by (cases "major_re (sibling_text elem)") (auto dest: major_re_nonempty)
  have "foldl scan_sibling (school, year, major) (elem # sibs) =
        foldl scan_sibling (s', y', m') sibs"
    by (simp add: step)
  also have "\<dots> = (if s' \<noteq> [] then s' else first_school sibs,
                    if y' \<noteq> [] then y' else first_year sibs,
                    if m' \<noteq> [] then m' else first_major sibs)"
    by (rule Cons.IH)
  finally show ?case by (simp only: s y m)
qed

subsection \<open>Candidate names\<close>




lemma name_prospects_keys:
  "list_all (keys_within prospect_fieldnames) (name_prospects competition_name ns)"
  by (cases ns)
     (simp add: name_prospects_def keys_within_def prospect_fieldnames_def Let_def
           split: prod.splits)

lemma list_all_concat_map:
  "(\<And>x. list_all P (f x)) \<Longrightarrow> list_all P (concat (map f xs))"
  by (induction xs) simp_all

lemma extract_basic_info_keys:
  "list_all (keys_within prospect_fieldnames) (extract_basic_info parser_fn html_content competition_name)"
  by (simp add: extract_basic_info_def extract_from_soup_def section_prospects_def
        list_all_concat_map name_prospects_keys split: option.splits)

subsection \<open>Winner regions\<close>




subsection \<open>The main loop\<close>

lemma process_competition_checked:
  assumes "loaded_row competition"
  shows "\<exists>w'. process_competition e competition w = Inr (checked e competition, w')"
proof -
  obtain competition_name url
    where n: "map_of competition ''competition_name'' = Some competition_name"
      and u: "map_of competition ''url'' = Some url"
    using assms by (auto simp: loaded_row_def)
  have fu: "field ''url'' competition = url"
    by (simp add: field_def u)
  let ?w1 = "print (''Checking '' @ competition_name @ ''...'') w"
  show ?thesis
  proof (cases "content_fetched e url")
    case False
    obtain html_content w2 where c: "check_competition_website e url ?w1 = (html_content, w2)"
      by (cases "check_competition_website e url ?w1") auto
    with False have "html_content = None \<or> html_content = Some []"
      by (auto simp: content_fetched_def check_competition_website_def
               split: http_result.splits if_splits)
    then have "process_competition e competition w = Inr (competition, w2)"
      using n u c by (auto simp: process_competition_def)
    then show ?thesis
      using False by (simp add: checked_def fu)
  next
    case True
    then obtain body where f: "check_competition_website e url ?w1 = (Some body, ?w1)"
      and t: "body \<noteq> []"
      by (auto simp: content_fetched_def check_competition_website_def split: http_result.splits)
    let ?prospects = "extract_basic_info (parser e) (Some body) competition_name"
    show ?thesis
    proof (cases "?prospects = []")
      case True
      then show ?thesis
        using n u f t \<open>content_fetched e url\<close>
        by (simp add: process_competition_def checked_def fu)
    next
      case False
      then obtain w3 where "save_prospects_to_csv ?prospects ''tbmc_prospects.csv'' ?w1 = Inr w3"
        using save_prospects_files [OF False extract_basic_info_keys] by blast
      then show ?thesis
        using n u f t False \<open>content_fetched e url\<close>
        by (simp add: process_competition_def checked_def fu)
    qed
  qed
qed

lemma main_loop_checked:
  "list_all loaded_row competitions \<Longrightarrow>
   \<exists>w'. main_loop e competitions w = Inr (map (checked e) competitions, w')"
proof (induction competitions arbitrary: w)
  case Nil
  show ?case by simp
next
  case (Cons competition rest)
  then obtain w1 where "process_competition e competition w = Inr (checked e competition, w1)"
    using process_competition_checked [of competition e w] by auto
  moreover obtain w2 where "main_loop e rest w1 = Inr (map (checked e) rest, w2)"
    using Cons by auto
  ultimately show ?case by simp
qed

lemma keys_within_update:
  "keys_within fieldnames rowdict \<Longrightarrow> k \<in> set fieldnames \<Longrightarrow>
   keys_within fieldnames (AList.update k v rowdict)"
  by (induction rowdict) (auto simp: keys_within_def)

lemma checked_keys:
  "loaded_row competition \<Longrightarrow> keys_within competition_fieldnames (checked e competition)"
  by (simp add: checked_def loaded_row_def keys_within_update competition_fieldnames_def)

lemma checked_row:
  "row_of competition_fieldnames (checked e competition) = rewritten_row e competition"
  by (simp add: row_of_def checked_def rewritten_row_def competition_fieldnames_def field_def
        update_conv')

lemma write_competitions_checked:
  assumes "list_all loaded_row competitions"
  shows "\<exists>w'. write_competitions (map (checked e) competitions) w = Inr w'
           \<and> files w' ''competitions.csv''
               = Some (competition_fieldnames # map (rewritten_row e) competitions)"
proof -
  have "list_all (keys_within competition_fieldnames) (map (checked e) competitions)"
    using assms by (auto simp: list_all_iff checked_keys)
  then show ?thesis
    by (simp add: write_competitions_def writerows_appends checked_row comp_def)
qed

subsection \<open>Dates\<close>

lemma digit_chars_nth: "k < 10 \<Longrightarrow> is_digit (digit_chars ! k)"
  unfolding is_digit_def by (rule nth_mem) (simp add: digit_chars_def)

lemma str_nat_one: "n < 10 \<Longrightarrow> str_nat n = [digit_chars ! n]"
  by (simp add: str_nat.simps [of n])

lemma str_nat_two:
  "10 \<le> n \<Longrightarrow> n < 100 \<Longrightarrow> str_nat n = [digit_chars ! (n div 10), digit_chars ! (n mod 10)]"
  by (simp add: str_nat.simps [of n] str_nat_one)

lemma str_nat_three:
  "100 \<le> n \<Longrightarrow> n < 1000 \<Longrightarrow>
   str_nat n = [digit_chars ! (n div 10 div 10), digit_chars ! (n div 10 mod 10),
                digit_chars ! (n mod 10)]"
  by (simp add: str_nat.simps [of n] str_nat_two)

lemma str_nat_four:
  "1000 \<le> n \<Longrightarrow> n < 10000 \<Longrightarrow>
   str_nat n = [digit_chars ! (n div 10 div 10 div 10), digit_chars ! (n div 10 div 10 mod 10),
                digit_chars ! (n div 10 mod 10), digit_chars ! (n mod 10)]"
  by (simp add: str_nat.simps [of n] str_nat_three)

lemma zfill_two:
  assumes "n < 100"
  shows "length (zfill 2 (str_nat n)) = 2 \<and> list_all is_digit (zfill 2 (str_nat n))"
proof (cases "n < 10")
  case True
  then show ?thesis
    by (simp add: str_nat_one zfill_def digit_chars_nth) (simp add: is_digit_def digit_chars_def)
next
  case False
  with assms show ?thesis
    by (simp add: str_nat_two zfill_def digit_chars_nth)
qed

lemma zfill_four:
  assumes "1000 \<le> n" and "n < 10000"
  shows "length (zfill 4 (str_nat n)) = 4 \<and> list_all is_digit (zfill 4 (str_nat n))"
proof -
  have "n div 10 div 10 div 10 < 10"
    using assms by simp
  then show ?thesis
    using assms by (simp add: str_nat_four zfill_def digit_chars_nth)
qed

lemma strftime_ymd_form:
  assumes "valid_date d"
  shows "ymd_form (strftime_ymd d)"
proof -
  obtain y where y: "zfill 4 (str_nat (yyyy d)) = y" "length y = 4" "list_all is_digit y"
    using assms zfill_four [of "yyyy d"] by (auto simp: valid_date_def)
  obtain m where m: "zfill 2 (str_nat (mm d)) = m" "length m = 2" "list_all is_digit m"
    using assms zfill_two [of "mm d"] by (auto simp: valid_date_def)
  obtain a where a: "zfill 2 (str_nat (dd d)) = a" "length a = 2" "list_all is_digit a"
    using assms zfill_two [of "dd d"] by (auto simp: valid_date_def)
  show ?thesis
    using y(2,3) m(2,3) a(2,3)
    by (simp add: strftime_ymd_def ymd_form_def y(1) m(1) a(1) nth_append)
qed

subsection \<open>Texts of the example\<close>




section \<open>Properties of the extractor\<close>



text \<open>
  Claim C4. The scan of the siblings of a name resolves each of school, year and
  major on its own, to the first sibling in document order that matches: the
  school is the text of the first sibling that mentions a university, a college
  or a school, also when a later sibling mentions one too, and likewise for the
  year and the major. A field that has a value that is not empty keeps it
  through all later siblings.
\<close>

theorem first_match_wins:
  "scan_siblings sibs = (first_school sibs, first_year sibs, first_major sibs)
   \<and> (school \<noteq> [] \<longrightarrow> fst (foldl scan_sibling (school, year, major) later) = school)
   \<and> (year \<noteq> [] \<longrightarrow> fst (snd (foldl scan_sibling (school, year, major) later)) = year)
   \<and> (major \<noteq> [] \<longrightarrow> snd (snd (foldl scan_sibling (school, year, major) later)) = major)"
  by (simp add: scan_siblings_def scan_from)

theorem first_match_wins_witness:
  "scan_siblings [Tag ''p'' [] [NavigableString ''Rice University''],
                  Tag ''p'' [] [NavigableString ''Harvard University, junior'']]
     = (''Rice University'', ''junior'', [])
   \<and> fst (foldl scan_sibling (''Rice University'', ''senior'', ''Physics'')
            [Tag ''p'' [] [NavigableString ''Harvard University, junior, Biology major'']])
     = ''Rice University''"
proof -
  have "first_school [Tag ''p'' [] [NavigableString ''Rice University''],
                      Tag ''p'' [] [NavigableString ''Harvard University, junior'']]
          = ''Rice University''"
    by code_simp
  moreover have "first_year [Tag ''p'' [] [NavigableString ''Rice University''],
                      Tag ''p'' [] [NavigableString ''Harvard University, junior'']]
          = ''junior''"
    by code_simp
  moreover have "first_major [Tag ''p'' [] [NavigableString ''Rice University''],
                      Tag ''p'' [] [NavigableString ''Harvard University, junior'']]
          = []"
    by code_simp
  ultimately show ?thesis
    using first_match_wins
      [of "[Tag ''p'' [] [NavigableString ''Rice University''],
            Tag ''p'' [] [NavigableString ''Harvard University, junior'']]"
          "''Rice University''" "''senior''" "''Physics''"
          "[Tag ''p'' [] [NavigableString ''Harvard University, junior, Biology major'']]"]
    by simp
qed





section \<open>Properties of the sink\<close>

text \<open>
  Claim C8. Called with no prospects, the sink prints one diagnostic line and
  returns: the file system is left as it was, so the output file is neither
  created nor modified.
\<close>

theorem save_empty_is_noop:
  "save_prospects_to_csv [] output_file w = Inr (w\<lparr>stdout := stdout w @ [''No prospects found to save.'']\<rparr>)"
  by (simp add: save_prospects_to_csv_def print_def)

text \<open>
  Claim C10. Called with at least one prospect, the sink writes the header row
  exactly when the output file does not exist: the file then holds the header
  and the data rows, and a file that exists keeps its rows and gets the data rows
  after them, with no header. In particular a file that exists and is empty
  ends up with the data rows only.
\<close>

theorem header_iff_file_missing:
  assumes "prospects \<noteq> []" and "list_all (keys_within prospect_fieldnames) prospects"
  shows "\<exists>w'. save_prospects_to_csv prospects output_file w = Inr w'
           \<and> files w' output_file =
               Some ((case files w output_file of
                        None \<Rightarrow> [prospect_fieldnames]
                      | Some rows \<Rightarrow> rows)
                     @ map (row_of prospect_fieldnames) prospects)
           \<and> (files w output_file = Some [] \<longrightarrow>
                files w' output_file = Some (map (row_of prospect_fieldnames) prospects))"
  using save_prospects_files [OF assms, of output_file w] by auto

theorem header_iff_file_missing_witness:
  "\<exists>w'. save_prospects_to_csv
          [[(''Student/Team Name'', ''Jane Doe''), (''School'', ''Rice University''),
            (''Year'', ''senior''), (''Major'', ''Physics''), (''Competition'', ''MIT $100K''),
            (''Venture Name'', []), (''Email'', [])]]
          ''tbmc_prospects.csv''
          \<lparr>files = [''tbmc_prospects.csv'' \<mapsto> []], stdout = []\<rparr> = Inr w'
      \<and> files w' ''tbmc_prospects.csv'' =
          Some [[''Jane Doe'', ''Rice University'', ''senior'', ''Physics'', ''MIT $100K'', [], []]]"
  using header_iff_file_missing
    [of "[[(''Student/Team Name'', ''Jane Doe''), (''School'', ''Rice University''),
            (''Year'', ''senior''), (''Major'', ''Physics''), (''Competition'', ''MIT $100K''),
            (''Venture Name'', []), (''Email'', [])]]"
        "''tbmc_prospects.csv''"
        "\<lparr>files = [''tbmc_prospects.csv'' \<mapsto> []], stdout = []\<rparr>"]
  by (simp add: keys_within_def prospect_fieldnames_def row_of_def)

text \<open>
  Claim C7. Two calls of the sink with prospects, on a path that did not exist
  before the first: after the first call the file is the header and the rows of
  the first call; after the second it is that same content followed by the rows
  of the second call. One header, rows in call order, nothing rewritten, and no
  other file touched.
\<close>

theorem save_twice_one_header:
  assumes "files w output_file = None"
    and "first \<noteq> []" and "list_all (keys_within prospect_fieldnames) first"
    and "second \<noteq> []" and "list_all (keys_within prospect_fieldnames) second"
  shows "\<exists>w1 w2. save_prospects_to_csv first output_file w = Inr w1
           \<and> save_prospects_to_csv second output_file w1 = Inr w2
           \<and> files w1 output_file =
               Some (prospect_fieldnames # map (row_of prospect_fieldnames) first)
           \<and> files w2 output_file =
               Some (prospect_fieldnames # map (row_of prospect_fieldnames) first
                       @ map (row_of prospect_fieldnames) second)
           \<and> (\<forall>path. path \<noteq> output_file \<longrightarrow> files w2 path = files w path)"
proof -
  obtain w1 where w1: "save_prospects_to_csv first output_file w = Inr w1"
    and f1: "files w1 = (files w)(output_file \<mapsto>
               [prospect_fieldnames] @ map (row_of prospect_fieldnames) first)"
    using save_prospects_files [OF assms(2,3), of output_file w] assms(1) by auto
  obtain w2 where w2: "save_prospects_to_csv second output_file w1 = Inr w2"
    and f2: "files w2 = (files w1)(output_file \<mapsto>
               (case files w1 output_file of None \<Rightarrow> [prospect_fieldnames] | Some rows \<Rightarrow> rows)
                 @ map (row_of prospect_fieldnames) second)"
    using save_prospects_files [OF assms(4,5), of output_file w1] by auto
  show ?thesis using w1 w2 f1 f2 by simp
qed

theorem save_twice_one_header_witness:
  "\<exists>w1 w2. save_prospects_to_csv
          [[(''Student/Team Name'', ''Jane Doe''), (''School'', ''Rice University''),
            (''Year'', ''senior''), (''Major'', ''Physics''), (''Competition'', ''MIT $100K''),
            (''Venture Name'', []), (''Email'', [])]]
          ''tbmc_prospects.csv'' \<lparr>files = Map.empty, stdout = []\<rparr> = Inr w1
      \<and> save_prospects_to_csv
          [[(''Student/Team Name'', ''Team Rocket''), (''School'', []),
            (''Year'', ''2024''), (''Major'', []), (''Competition'', ''MIT $100K''),
            (''Venture Name'', []), (''Email'', [])]]
          ''tbmc_prospects.csv'' w1 = Inr w2
      \<and> files w2 ''tbmc_prospects.csv'' =
          Some [[''Student/Team Name'', ''School'', ''Year'', ''Major'', ''Competition'',
                 ''Venture Name'', ''Email''],
                [''Jane Doe'', ''Rice University'', ''senior'', ''Physics'', ''MIT $100K'', [], []],
                [''Team Rocket'', [], ''2024'', [], ''MIT $100K'', [], []]]"
  using save_twice_one_header
    [of "\<lparr>files = Map.empty, stdout = []\<rparr>" "''tbmc_prospects.csv''"
        "[[(''Student/Team Name'', ''Jane Doe''), (''School'', ''Rice University''),
            (''Year'', ''senior''), (''Major'', ''Physics''), (''Competition'', ''MIT $100K''),
            (''Venture Name'', []), (''Email'', [])]]"
        "[[(''Student/Team Name'', ''Team Rocket''), (''School'', []),
            (''Year'', ''2024''), (''Major'', []), (''Competition'', ''MIT $100K''),
            (''Venture Name'', []), (''Email'', [])]]"]
  by (auto simp add: keys_within_def prospect_fieldnames_def row_of_def)

section \<open>Properties of the fetcher and the main loop\<close>

text \<open>
  Claim C2. When the fetch of a competition's URL fails (an exception of any
  kind, a timeout among them, or a status other than 200), the fetcher returns
  no content and changes no file; the round of the main loop for that
  competition leaves the competition and all files as they were, so it adds no
  prospect, and the loop goes on with the competitions that follow.
\<close>

theorem failed_fetch_yields_nothing:
  assumes "fetch_fails e url"
    and "map_of competition ''competition_name'' = Some competition_name"
    and "map_of competition ''url'' = Some url"
  shows "fst (check_competition_website e url w0) = None
         \<and> files (snd (check_competition_website e url w0)) = files w0
         \<and> (\<exists>w'. process_competition e competition w = Inr (competition, w')
                \<and> files w' = files w
                \<and> main_loop e (competition # rest) w =
                    (case main_loop e rest w' of
                       Inl err \<Rightarrow> Inl err
                     | Inr (rest', w'') \<Rightarrow> Inr (competition # rest', w'')))"
proof -
  have fetch: "\<And>v. fst (check_competition_website e url v) = None
                 \<and> files (snd (check_competition_website e url v)) = files v"
    using assms(1)
    by (simp add: fetch_fails_def check_competition_website_def split: http_result.splits)
  let ?w1 = "print (''Checking '' @ competition_name @ ''...'') w"
  obtain w2 where w2: "check_competition_website e url ?w1 = (None, w2)"
    and f2: "files w2 = files w"
    using fetch [of ?w1] by (cases "check_competition_website e url ?w1") simp
  have step: "process_competition e competition w = Inr (competition, w2)"
    using assms(2,3) w2 by (simp add: process_competition_def)
  show ?thesis using fetch [of w0] step f2 by simp
qed

theorem failed_fetch_yields_nothing_witness:
  "fetch_fails \<lparr>net = (\<lambda>u. Response 404 []), today = \<lparr>yyyy = 2026, mm = 11, dd = 4\<rparr>,
                 parser = (\<lambda>h. [])\<rparr> ''https://rbpc.rice.edu/winners''
   \<and> (\<exists>w'. process_competition
               \<lparr>net = (\<lambda>u. Response 404 []), today = \<lparr>yyyy = 2026, mm = 11, dd = 4\<rparr>,
                 parser = (\<lambda>h. [])\<rparr>
               [(''competition_name'', ''Rice Business Plan Competition''),
                (''url'', ''https://rbpc.rice.edu/winners''), (''last_checked'', [])]
               \<lparr>files = Map.empty, stdout = []\<rparr>
             = Inr ([(''competition_name'', ''Rice Business Plan Competition''),
                     (''url'', ''https://rbpc.rice.edu/winners''), (''last_checked'', [])], w')
           \<and> files w' = Map.empty)"
  using failed_fetch_yields_nothing
    [of "\<lparr>net = (\<lambda>u. Response 404 []), today = \<lparr>yyyy = 2026, mm = 11, dd = 4\<rparr>,
          parser = (\<lambda>h. [])\<rparr>"
        "''https://rbpc.rice.edu/winners''"
        "[(''competition_name'', ''Rice Business Plan Competition''),
          (''url'', ''https://rbpc.rice.edu/winners''), (''last_checked'', [])]"
        "''Rice Business Plan Competition''"
        "\<lparr>files = Map.empty, stdout = []\<rparr>"
        "\<lparr>files = Map.empty, stdout = []\<rparr>" "[]"]
  by (auto simp add: fetch_fails_def simp del: main_loop.simps)

text \<open>
  Claim C1, as stated, asks for today's date in \<open>last_checked\<close> of every row the
  run goes through. The loop sets the date inside \<open>if html_content:\<close> only: a row
  whose fetch fails is written back with the value it had. Here the fetch of
  the row answers 404, the run is on 2026-11-04, and the row is written with
  \<open>2025-01-31\<close>.
\<close>

theorem failed_fetch_keeps_last_checked:
  "competitions_file
     (main_loaded \<lparr>net = example_site, today = \<lparr>yyyy = 2026, mm = 11, dd = 4\<rparr>, parser = example_page\<rparr>
        [[(''competition_name'', ''MIT $100K''),
          (''url'', ''https://www.mit100k.org/winners''), (''last_checked'', ''2025-01-31'')]]
        \<lparr>files = Map.empty, stdout = []\<rparr>)
     = Some [[''competition_name'', ''url'', ''last_checked''],
             [''MIT $100K'', ''https://www.mit100k.org/winners'', ''2025-01-31'']]
   \<and> strftime_ymd (today \<lparr>net = example_site, today = \<lparr>yyyy = 2026, mm = 11, dd = 4\<rparr>, parser = example_page\<rparr>)
       = ''2026-11-04''"
  by code_simp

text \<open>
  Claim C1, amended. After a run of \<open>main\<close> over a loaded table, the table file
  holds the header \<open>competition_name, url, last_checked\<close> and one row for each
  loaded row, in the same order, with the name and the URL of that row; its
  \<open>last_checked\<close> is the date of the run, in the form \<open>YYYY-MM-DD\<close>, when the fetch
  of the row returned status 200 and a body that is not empty, and the value the
  row had before otherwise.
\<close>

theorem table_rewritten:
  assumes "list_all loaded_row competitions"
  shows "\<exists>w'. main_loaded e competitions w = Inr w'
           \<and> files w' ''competitions.csv''
               = Some (competition_fieldnames # map (rewritten_row e) competitions)
           \<and> (valid_date (today e) \<longrightarrow> ymd_form (strftime_ymd (today e)))"
proof -
  obtain w1 where loop: "main_loop e competitions w = Inr (map (checked e) competitions, w1)"
    using main_loop_checked [OF assms] by blast
  obtain w2 where "write_competitions (map (checked e) competitions) w1 = Inr w2"
    and "files w2 ''competitions.csv''
           = Some (competition_fieldnames # map (rewritten_row e) competitions)"
    using write_competitions_checked [OF assms] by blast
  then show ?thesis
    using loop strftime_ymd_form by (simp add: main_loaded_def)
qed

theorem table_rewritten_witness:
  "list_all loaded_row
     [[(''competition_name'', ''Rice Business Plan Competition''),
       (''url'', ''https://rbpc.rice.edu/winners''), (''last_checked'', [])],
      [(''competition_name'', ''MIT $100K''),
       (''url'', ''https://www.mit100k.org/winners''), (''last_checked'', ''2025-01-31'')]]
   \<and> (\<exists>w'. main_loaded \<lparr>net = example_site, today = \<lparr>yyyy = 2026, mm = 11, dd = 4\<rparr>, parser = example_page\<rparr>
               [[(''competition_name'', ''Rice Business Plan Competition''),
                 (''url'', ''https://rbpc.rice.edu/winners''), (''last_checked'', [])],
                [(''competition_name'', ''MIT $100K''),
                 (''url'', ''https://www.mit100k.org/winners''), (''last_checked'', ''2025-01-31'')]]
               \<lparr>files = Map.empty, stdout = []\<rparr> = Inr w'
           \<and> files w' ''competitions.csv'' =
               Some [[''competition_name'', ''url'', ''last_checked''],
                     [''Rice Business Plan Competition'', ''https://rbpc.rice.edu/winners'',
                      ''2026-11-04''],
                     [''MIT $100K'', ''https://www.mit100k.org/winners'', ''2025-01-31'']])
   \<and> valid_date \<lparr>yyyy = 2026, mm = 11, dd = 4\<rparr>
   \<and> ymd_form ''2026-11-04''"
proof -
  have rows: "list_all loaded_row
     [[(''competition_name'', ''Rice Business Plan Competition''),
       (''url'', ''https://rbpc.rice.edu/winners''), (''last_checked'', [])],
      [(''competition_name'', ''MIT $100K''),
       (''url'', ''https://www.mit100k.org/winners''), (''last_checked'', ''2025-01-31'')]]"
    by code_simp
  have date: "valid_date \<lparr>yyyy = 2026, mm = 11, dd = 4\<rparr>"
    by (simp add: valid_date_def)
  have today: "strftime_ymd \<lparr>yyyy = 2026, mm = 11, dd = 4\<rparr> = ''2026-11-04''"
    by code_simp
  have r1: "rewritten_row \<lparr>net = example_site, today = \<lparr>yyyy = 2026, mm = 11, dd = 4\<rparr>, parser = example_page\<rparr>
              [(''competition_name'', ''Rice Business Plan Competition''),
               (''url'', ''https://rbpc.rice.edu/winners''), (''last_checked'', [])]
            = [''Rice Business Plan Competition'', ''https://rbpc.rice.edu/winners'',
               ''2026-11-04'']"
    by code_simp
  have r2: "rewritten_row \<lparr>net = example_site, today = \<lparr>yyyy = 2026, mm = 11, dd = 4\<rparr>, parser = example_page\<rparr>
              [(''competition_name'', ''MIT $100K''),
               (''url'', ''https://www.mit100k.org/winners''), (''last_checked'', ''2025-01-31'')]
            = [''MIT $100K'', ''https://www.mit100k.org/winners'', ''2025-01-31'']"
    by code_simp
  show ?thesis
    using table_rewritten [OF rows,
        of "\<lparr>net = example_site, today = \<lparr>yyyy = 2026, mm = 11, dd = 4\<rparr>, parser = example_page\<rparr>"
           "\<lparr>files = Map.empty, stdout = []\<rparr>"]
      rows date
    by (auto simp add: r1 r2 today competition_fieldnames_def)
qed

end
